theory Spec2Isabelle
  imports Complex_Main
begin

section \<open>Numbers and exceptions\<close>

text \<open>
  The module computes with double-precision numbers (Python \<open>float\<close>, numpy
  \<open>float64\<close>). They are modelled by their values: a finite number is a real, and
  the three special values are kept because the code produces and compares them
  (\<open>np.inf\<close> as a default bound, \<open>np.isnan\<close> in the property check, division
  by a zero width). Arithmetic on finite numbers is exact: rounding, overflow and the
  sign of zero (a zero is \<open>+0.0\<close>) are left out.
\<close>

datatype pyfloat = Num real | PosInf | NegInf | NaN

fun isnan :: "pyfloat \<Rightarrow> bool" where
  "isnan NaN = True"
| "isnan _ = False"

text \<open>Comparisons: every comparison with NaN is false.\<close>

fun flt :: "pyfloat \<Rightarrow> pyfloat \<Rightarrow> bool" where
  "flt NaN _ = False"
| "flt _ NaN = False"
| "flt (Num a) (Num b) = (a < b)"
| "flt (Num a) PosInf = True"
| "flt (Num a) NegInf = False"
| "flt PosInf _ = False"
| "flt NegInf NegInf = False"
| "flt NegInf _ = True"

definition feq :: "pyfloat \<Rightarrow> pyfloat \<Rightarrow> bool" where
  "feq a b = (\<not> isnan a \<and> \<not> isnan b \<and> a = b)"

definition fle :: "pyfloat \<Rightarrow> pyfloat \<Rightarrow> bool" where
  "fle a b = (flt a b \<or> feq a b)"

definition fgt :: "pyfloat \<Rightarrow> pyfloat \<Rightarrow> bool" where
  "fgt a b = flt b a"

definition fge :: "pyfloat \<Rightarrow> pyfloat \<Rightarrow> bool" where
  "fge a b = fle b a"

fun fneg :: "pyfloat \<Rightarrow> pyfloat" where
  "fneg (Num a) = Num (- a)"
| "fneg PosInf = NegInf"
| "fneg NegInf = PosInf"
| "fneg NaN = NaN"

fun fadd :: "pyfloat \<Rightarrow> pyfloat \<Rightarrow> pyfloat" where
  "fadd NaN _ = NaN"
| "fadd _ NaN = NaN"
| "fadd (Num a) (Num b) = Num (a + b)"
| "fadd (Num a) b = b"
| "fadd a (Num b) = a"
| "fadd PosInf PosInf = PosInf"
| "fadd NegInf NegInf = NegInf"
| "fadd PosInf NegInf = NaN"
| "fadd NegInf PosInf = NaN"

definition fsub :: "pyfloat \<Rightarrow> pyfloat \<Rightarrow> pyfloat" where
  "fsub a b = fadd a (fneg b)"

text \<open>The sign of a number, as a multiplier: 1, -1, or 0 for a zero.\<close>

fun fsgn :: "pyfloat \<Rightarrow> real" where
  "fsgn (Num a) = sgn a"
| "fsgn PosInf = 1"
| "fsgn NegInf = - 1"
| "fsgn NaN = 0"

definition inf_of_sign :: "real \<Rightarrow> pyfloat" where
  "inf_of_sign s = (if 0 < s then PosInf else if s < 0 then NegInf else NaN)"

fun fmul :: "pyfloat \<Rightarrow> pyfloat \<Rightarrow> pyfloat" where
  "fmul NaN _ = NaN"
| "fmul _ NaN = NaN"
| "fmul (Num a) (Num b) = Num (a * b)"
| "fmul a b = inf_of_sign (fsgn a * fsgn b)"

text \<open>
  Division as numpy does it (the denominator \<open>rightmost - leftmost\<close> of the
  scaling factor is a \<open>float64\<close>, so the quotient is numpy's): a division by
  zero raises nothing, it gives an infinity of the numerator's sign, or NaN for 0/0.
\<close>

fun fdiv :: "pyfloat \<Rightarrow> pyfloat \<Rightarrow> pyfloat" where
  "fdiv NaN _ = NaN"
| "fdiv _ NaN = NaN"
| "fdiv (Num a) (Num b) = (if b = 0 then inf_of_sign a else Num (a / b))"
| "fdiv (Num a) _ = Num 0"
| "fdiv a (Num b) = (if b < 0 then fneg a else a)"
| "fdiv _ _ = NaN"

text \<open>
  The exceptions the module can raise. \<open>UnboundLocalError\<close> is a subclass of
  \<open>NameError\<close> in Python; \<open>EngineError\<close> stands for an exception of the
  geometry library, \<open>ReferenceError\<close> for a dead weak reference.
\<close>

datatype error =
    NameError string
  | UnboundLocalError string
  | AssertionError string
  | ValueError string
  | TypeError string
  | AttributeError string
  | IndexError
  | KeyError string
  | ReferenceError
  | EngineError nat

fun is_NameError :: "error \<Rightarrow> bool" where
  "is_NameError (NameError _) = True"
| "is_NameError (UnboundLocalError _) = True"
| "is_NameError _ = False"

section \<open>The property dictionary \<open>_PDict\<close>\<close>

text \<open>
  \<open>_PDict\<close> is a \<open>dict\<close> from property names to modulation factors with
  two methods of its own. A method that can raise returns the exception (if any)
  together with the dictionary as it is after the call.
\<close>

type_synonym pdict = "string \<rightharpoonup> pyfloat"

definition PDict_getitem :: "pdict \<Rightarrow> string \<Rightarrow> pyfloat" where
  "PDict_getitem self key = (if key \<in> dom self then the (self key) else Num 1)"

definition PDict_setitem :: "pdict \<Rightarrow> string \<Rightarrow> pyfloat \<Rightarrow> error option \<times> pdict" where
  "PDict_setitem self key val =
     (if fge val (Num 0) \<or> isnan val then (None, self(key \<mapsto> val))
      else (Some (AssertionError ''The property must be a positive real or NaN.''), self))"

section \<open>Geometry\<close>

text \<open>
  The shapes are \<open>shapely\<close> polygons: an exterior ring of points and a list of
  holes. A geometry that is not an instance of \<open>Polygon\<close> (a multi-polygon, a
  collection, a point: what an intersection or a buffer may return) is \<open>Other\<close>.
\<close>

type_synonym point = "pyfloat \<times> pyfloat"

datatype polygon = Polygon (exterior: "point list") (interiors: "point list list")

datatype geom = Poly polygon | Other nat

text \<open>
  \<open>np.min\<close> and \<open>np.max\<close> of a non-empty array: a NaN in the array is the result.
\<close>

definition np_minimum :: "pyfloat \<Rightarrow> pyfloat \<Rightarrow> pyfloat" where
  "np_minimum x m = (if isnan x \<or> isnan m then NaN else if flt x m then x else m)"

definition np_maximum :: "pyfloat \<Rightarrow> pyfloat \<Rightarrow> pyfloat" where
  "np_maximum x m = (if isnan x \<or> isnan m then NaN else if flt m x then x else m)"

definition np_min :: "pyfloat list \<Rightarrow> pyfloat" where
  "np_min xs = fold np_minimum (tl xs) (hd xs)"

definition np_max :: "pyfloat list \<Rightarrow> pyfloat" where
  "np_max xs = fold np_maximum (tl xs) (hd xs)"

text \<open>
  \<open>polygon.bounds\<close>: the envelope \<open>(minx, miny, maxx, maxy)\<close> of the exterior
  ring, which the engine grows point by point; the empty tuple (here \<open>None\<close>) for
  an empty polygon.
\<close>

definition env_min :: "pyfloat list \<Rightarrow> pyfloat" where
  "env_min xs = fold (\<lambda>x m. if flt x m then x else m) (tl xs) (hd xs)"

definition env_max :: "pyfloat list \<Rightarrow> pyfloat" where
  "env_max xs = fold (\<lambda>x m. if flt m x then x else m) (tl xs) (hd xs)"

definition bounds :: "polygon \<Rightarrow> (pyfloat \<times> pyfloat \<times> pyfloat \<times> pyfloat) option" where
  "bounds p =
     (case exterior p of
        [] \<Rightarrow> None
      | _ \<Rightarrow> Some (env_min (map fst (exterior p)), env_min (map snd (exterior p)),
                  env_max (map fst (exterior p)), env_max (map snd (exterior p))))"

text \<open>
  \<open>LinearRing(coordinates)\<close>, by which the library builds every ring of a polygon
  it computes. A ring of no coordinate is the empty ring. Otherwise the constructor
  wants three coordinates at least, repeats the first coordinate at the end when
  there are three or when the last differs from the first, and hands the sequence to
  GEOS, which refuses a ring whose first and last coordinates are not equal: the
  constructor then raises a \<open>ValueError\<close>. A NaN is equal to nothing, itself
  included, so a ring that starts with a NaN coordinate is never closed and cannot
  be built.
\<close>

definition same_point :: "point \<Rightarrow> point \<Rightarrow> bool" where
  "same_point p q = (feq (fst p) (fst q) \<and> feq (snd p) (snd q))"

definition linear_ring :: "point list \<Rightarrow> error + point list" where
  "linear_ring coords =
     (if coords = [] then Inr []
      else if length coords < 3 then
        Inl (ValueError ''A LinearRing must have at least 3 coordinate tuples'')
      else
        let closed = (if length coords \<noteq> 3 \<and> same_point (hd coords) (last coords)
                      then coords else coords @ [hd coords])
        in if same_point (hd closed) (last closed) then Inr closed
           else Inl (ValueError ''GEOSGeom_createLinearRing_r returned a NULL pointer''))"

text \<open>The rings of the holes, built one after the other.\<close>

fun linear_rings :: "point list list \<Rightarrow> error + point list list" where
  "linear_rings [] = Inr []"
| "linear_rings (coords # rest) =
     (case linear_ring coords of
        Inl e \<Rightarrow> Inl e
      | Inr ring \<Rightarrow>
          (case linear_rings rest of
             Inl e \<Rightarrow> Inl e
           | Inr rings \<Rightarrow> Inr (ring # rings)))"

text \<open>
  \<open>shapely.affinity.scale(geom, xfact, yfact)\<close> as the module calls it, with the
  library's default \<open>origin='center'\<close>: the centre of the bounding box stays where
  it is. The library returns an empty geometry as it is (the same object), and
  otherwise maps every point by \<open>x' = a*x + b*y + xoff\<close>,
  \<open>y' = d*x + e*y + yoff\<close> with \<open>a = xfact\<close>, \<open>e = yfact\<close>, \<open>b = d = 0.0\<close>,
  \<open>xoff = x0 - x0*xfact\<close>, \<open>yoff = y0 - y0*yfact\<close>, where
  \<open>(x0, y0) = ((maxx + minx)/2, (maxy + miny)/2)\<close>. It builds the exterior ring
  of the mapped points, then the rings of the holes, then the polygon; it raises what
  the construction of a ring raises.
\<close>

definition affine_pt :: "pyfloat \<Rightarrow> pyfloat \<Rightarrow> pyfloat \<Rightarrow> pyfloat \<Rightarrow> point \<Rightarrow> point" where
  "affine_pt a e xoff yoff pt =
     (fadd (fadd (fmul a (fst pt)) (fmul (Num 0) (snd pt))) xoff,
      fadd (fadd (fmul (Num 0) (fst pt)) (fmul e (snd pt))) yoff)"

definition scale :: "polygon \<Rightarrow> pyfloat \<Rightarrow> pyfloat \<Rightarrow> error + polygon" where
  "scale g xfact yfact =
     (case bounds g of
        None \<Rightarrow> Inr g
      | Some (minx, miny, maxx, maxy) \<Rightarrow>
          let x0 = fdiv (fadd maxx minx) (Num 2);
              y0 = fdiv (fadd maxy miny) (Num 2);
              xoff = fsub x0 (fmul x0 xfact);
              yoff = fsub y0 (fmul y0 yfact)
          in case linear_ring (map (affine_pt xfact yfact xoff yoff) (exterior g)) of
               Inl e \<Rightarrow> Inl e
             | Inr shell \<Rightarrow>
                 (case linear_rings (map (map (affine_pt xfact yfact xoff yoff)) (interiors g)) of
                    Inl e \<Rightarrow> Inl e
                  | Inr holes \<Rightarrow> Inr (Polygon shell holes)))"

text \<open>
  The other operations of the geometry library have no closed form; they are
  parameters of the model, each as the module calls it. An operation that builds a
  geometry may raise (an \<open>EngineError\<close>, or whatever the library raises).
  \<open>eng_new_polygon shell holes\<close> is \<open>Polygon(shell, holes=holes)\<close>,
  \<open>eng_point_buffer c r\<close> is \<open>Point(c).buffer(r)\<close> (always a polygon),
  \<open>eng_contains g pt\<close> is \<open>g.contains(p)\<close> for the point \<open>p\<close> at \<open>pt\<close>.
\<close>

record engine =
  eng_new_polygon :: "point list \<Rightarrow> point list list option \<Rightarrow> error + polygon"
  eng_point_buffer :: "point \<Rightarrow> pyfloat \<Rightarrow> error + polygon"
  eng_intersection :: "geom \<Rightarrow> geom \<Rightarrow> error + geom"
  eng_difference :: "geom \<Rightarrow> geom \<Rightarrow> error + geom"
  eng_overlaps :: "geom \<Rightarrow> geom \<Rightarrow> error + bool"
  eng_buffer :: "geom \<Rightarrow> pyfloat \<Rightarrow> error + geom"
  eng_contains :: "polygon \<Rightarrow> point \<Rightarrow> bool"
  eng_centroid :: "polygon \<Rightarrow> error + point"

section \<open>Shapes and areas\<close>

text \<open>
  The parent of a shape is used for one thing, \<open>self._parent.node_nb()\<close>; a parent
  is modelled by what that call does: it raises or returns the number of nodes.
\<close>

type_synonym parent = "error + nat"

text \<open>
  Python values that are not objects of this module: attributes and arguments are
  untyped, so a height, a name or a properties argument can be any of them.
  \<open>PyObj\<close> is any other object (a module, a class, a function), by its name.
\<close>

datatype pyval =
    PyNone
  | PyFloat pyfloat
  | PyStr string
  | PyDict pdict
  | PyGeom geom
  | PyObj string

text \<open>
  An \<open>Area\<close> object: the polygon it is, the attributes it has as a \<open>Shape\<close>
  (\<open>_parent\<close>, \<open>_unit\<close>, \<open>_geom_type\<close>) and its own (\<open>height\<close>,
  \<open>name\<close>, \<open>_prop\<close>).
\<close>

record area =
  ar_geom :: polygon
  ar_parent :: "parent option"
  ar_unit :: string
  ar_geom_type :: string
  ar_height :: pyval
  ar_name :: pyval
  ar_prop :: pdict

text \<open>
  A \<open>Shape\<close> object. \<open>_areas\<close> is a Python \<open>dict\<close> from names to whatever
  was stored under them: an \<open>Area\<close> or \<open>None\<close>. It is kept as an association
  list in insertion order, with distinct keys. \<open>radius\<close> and \<open>radii\<close> are
  attributes only \<open>disk\<close> and \<open>ellipse\<close> set.
\<close>

record shape =
  sh_geom :: polygon
  sh_parent :: "parent option"
  sh_unit :: string
  sh_geom_type :: string
  sh_areas :: "(string \<times> area option) list"
  sh_radius :: "pyfloat option"
  sh_radii :: "(pyfloat \<times> pyfloat) option"

text \<open>
  The scaling factor, lines 123-128 of \<open>from_polygon\<close> and again lines 543-548 of
  \<open>from_shape\<close>. \<open>ext[:, 0]\<close> raises an \<open>IndexError\<close> on the empty array of
  an empty exterior.
\<close>

definition find_scaling :: "polygon \<Rightarrow> pyfloat option \<Rightarrow> pyfloat option \<Rightarrow> error + pyfloat" where
  "find_scaling polygon min_x max_x =
     (case (min_x, max_x) of
        (Some mn, Some mx) \<Rightarrow>
          (case exterior polygon of
             [] \<Rightarrow> Inl IndexError
           | _ \<Rightarrow>
               let ext = exterior polygon;
                   leftmost = np_min (map fst ext);
                   rightmost = np_max (map fst ext)
               in Inr (fdiv (fsub mx mn) (fsub rightmost leftmost)))
      | _ \<Rightarrow> Inr (Num 1))"

text \<open>
  \<open>_PDict(d)\<close> is \<open>dict\<close>'s constructor: it takes the items of a mapping as
  they are (\<open>__setitem__\<close> is not called), accepts an empty iterable, and raises
  for a value that is not a mapping or an iterable of pairs.
\<close>

definition PDict_new :: "pyval \<Rightarrow> error + pdict" where
  "PDict_new d =
     (case d of
        PyDict m \<Rightarrow> Inr m
      | PyStr s \<Rightarrow>
          (if s = [] then Inr Map.empty
           else Inl (ValueError ''dictionary update sequence element has the wrong length''))
      | _ \<Rightarrow> Inl (TypeError ''object is not iterable''))"

text \<open>
  \<open>Area.from_shape\<close>. The body builds the area \<open>obj\<close> and ends without a
  \<open>return\<close> statement: the call evaluates to \<open>None\<close>.
\<close>

definition from_shape ::
  "geom \<Rightarrow> pyval \<Rightarrow> pyval \<Rightarrow> pyval \<Rightarrow> string \<Rightarrow> pyfloat option \<Rightarrow> pyfloat option
   \<Rightarrow> error + area option" where
  "from_shape shape height name properties unit min_x max_x =
     (case shape of
        Other _ \<Rightarrow> Inl (AssertionError ''Expected a Polygon object.'')
      | Poly p \<Rightarrow>
          (case find_scaling p min_x max_x of
             Inl e \<Rightarrow> Inl e
           | Inr scaling \<Rightarrow>
               (case scale p scaling scaling of
                  Inl e \<Rightarrow> Inl e
                | Inr g \<Rightarrow>
                    (case (if properties = PyNone then Inr Map.empty else PDict_new properties) of
                       Inl e \<Rightarrow> Inl e
                     | Inr prop \<Rightarrow>
                         let obj = \<lparr>ar_geom = g, ar_parent = None,
                                    ar_unit = unit, ar_geom_type = ''Polygon'', ar_height = height,
                                    ar_name = name, ar_prop = prop\<rparr>
                         in Inr None))))"

text \<open>
  \<open>Shape.from_polygon\<close>. An omitted \<open>min_x\<close> or \<open>max_x\<close> is the default
  (\<open>Some (Num (- 5000))\<close>, \<open>Some (Num 5000)\<close>); \<open>None\<close> is an explicit
  \<open>None\<close>.

  For an empty polygon \<open>scale\<close> returns the polygon it is given, not a new one. Then
  \<open>p2\<close> is the caller's polygon, and the \<open>obj\<close> of \<open>Area.from_shape(p2, ...)\<close>
  is \<open>p2\<close> again: the attributes \<open>from_shape\<close> sets on its \<open>obj\<close> overwrite
  those \<open>from_polygon\<close> has just set, and the object returned has
  \<open>_parent = None\<close> and \<open>_unit = 'um'\<close>, the default unit of \<open>from_shape\<close>
  (and the class, height, name and properties of an \<open>Area\<close>, which are not
  attributes of a shape and which the record does not hold).
\<close>

definition from_polygon ::
  "geom \<Rightarrow> pyfloat option \<Rightarrow> pyfloat option \<Rightarrow> string \<Rightarrow> parent option \<Rightarrow> pyval
   \<Rightarrow> error + shape" where
  "from_polygon polygon min_x max_x unit parent default_properties =
     (case polygon of
        Other _ \<Rightarrow> Inl (AssertionError ''Expected a Polygon object.'')
      | Poly p \<Rightarrow>
          (case find_scaling p min_x max_x of
             Inl e \<Rightarrow> Inl e
           | Inr scaling \<Rightarrow>
               (case scale p scaling scaling of
                  Inl e \<Rightarrow> Inl e
                | Inr p2 \<Rightarrow>
                    (case from_shape (Poly p2) (PyFloat (Num 0)) (PyStr ''default_area'')
                            default_properties ''um''
                            None None of
                       Inl e \<Rightarrow> Inl e
                     | Inr a \<Rightarrow>
                         if bounds p2 = None then
                           Inr \<lparr>sh_geom = p2, sh_parent = None, sh_unit = ''um'',
                                sh_geom_type = ''Polygon'', sh_areas = [(''default_area'', a)],
                                sh_radius = None, sh_radii = None\<rparr>
                         else
                           Inr \<lparr>sh_geom = p2, sh_parent = parent, sh_unit = unit,
                                sh_geom_type = ''Polygon'', sh_areas = [(''default_area'', a)],
                                sh_radius = None, sh_radii = None\<rparr>))))"

text \<open>\<open>Shape.__init__\<close>: the plain constructor \<open>Shape(shell, holes, ...)\<close>.\<close>

definition Shape_init ::
  "engine \<Rightarrow> point list \<Rightarrow> point list list option \<Rightarrow> string \<Rightarrow> parent option \<Rightarrow> pyval
   \<Rightarrow> error + shape" where
  "Shape_init eng shell holes unit parent default_properties =
     (case eng_new_polygon eng shell holes of
        Inl e \<Rightarrow> Inl e
      | Inr tmp \<Rightarrow>
          (case from_shape (Poly tmp) (PyFloat (Num 0)) (PyStr ''default_area'')
                  default_properties unit
                  None None of
             Inl e \<Rightarrow> Inl e
           | Inr a \<Rightarrow>
               (case eng_new_polygon eng shell holes of
                  Inl e \<Rightarrow> Inl e
                | Inr g \<Rightarrow>
                    Inr \<lparr>sh_geom = g, sh_parent = parent, sh_unit = unit,
                         sh_geom_type = ''Polygon'', sh_areas = [(''default_area'', a)],
                         sh_radius = None, sh_radii = None\<rparr>)))"

text \<open>The factories \<open>Shape.rectangle\<close>, \<open>Shape.disk\<close> and \<open>Shape.ellipse\<close>.\<close>

definition rectangle ::
  "engine \<Rightarrow> pyfloat \<Rightarrow> pyfloat \<Rightarrow> point \<Rightarrow> string \<Rightarrow> parent option \<Rightarrow> pyval
   \<Rightarrow> error + shape" where
  "rectangle eng height width centroid unit parent default_properties =
     (let half_w = fmul (Num 0.5) width;
          half_h = fmul (Num 0.5) height;
          points = [(fadd (fst centroid) half_w, fadd (snd centroid) half_h),
                    (fadd (fst centroid) half_w, fadd (snd centroid) (fneg half_h)),
                    (fsub (fst centroid) half_w, fsub (snd centroid) half_h),
                    (fsub (fst centroid) half_w, fsub (snd centroid) (fneg half_h))]
      in case Shape_init eng points None unit parent default_properties of
           Inl e \<Rightarrow> Inl e
         | Inr shape \<Rightarrow> Inr (shape\<lparr>sh_geom_type := ''Rectangle''\<rparr>))"

definition disk ::
  "engine \<Rightarrow> pyfloat \<Rightarrow> point \<Rightarrow> string \<Rightarrow> parent option \<Rightarrow> pyval \<Rightarrow> error + shape" where
  "disk eng radius centroid unit parent default_properties =
     (let minx = fsub (fst centroid) radius;
          maxx = fadd (fst centroid) radius
      in case eng_point_buffer eng centroid radius of
           Inl e \<Rightarrow> Inl e
         | Inr b \<Rightarrow>
             (case from_polygon (Poly b) (Some minx) (Some maxx) unit parent
                     default_properties of
                Inl e \<Rightarrow> Inl e
              | Inr d \<Rightarrow> Inr (d\<lparr>sh_geom_type := ''Disk'', sh_radius := Some radius\<rparr>)))"

definition ellipse ::
  "engine \<Rightarrow> pyfloat \<times> pyfloat \<Rightarrow> point \<Rightarrow> string \<Rightarrow> parent option \<Rightarrow> pyval
   \<Rightarrow> error + shape" where
  "ellipse eng radii centroid unit parent default_properties =
     (let rx = fst radii;
          ry = snd radii;
          minx = fsub (fst centroid) rx;
          maxx = fadd (fst centroid) rx
      in case eng_point_buffer eng centroid (Num 1) of
           Inl e \<Rightarrow> Inl e
         | Inr b \<Rightarrow>
             (case scale b rx ry of
                Inl e \<Rightarrow> Inl e
              | Inr sb \<Rightarrow>
                  (case from_polygon (Poly sb) (Some minx) (Some maxx) unit parent
                          default_properties of
                     Inl e \<Rightarrow> Inl e
                   | Inr d \<Rightarrow> Inr (d\<lparr>sh_geom_type := ''Ellipse'', sh_radii := Some radii\<rparr>))))"

section \<open>Adding an area\<close>

text \<open>
  The values a name of the module can be bound to: a plain value, a \<open>Shape\<close> or
  an \<open>Area\<close>.
\<close>

datatype pyobj = Val pyval | ShapeObj shape | AreaObj area

text \<open>
  A namespace binds names to objects. A name that a function body never assigns and
  that is not a parameter is looked up in the module's global namespace (and the
  builtins); a name that is not there raises a \<open>NameError\<close>.
\<close>

type_synonym namespace = "string \<rightharpoonup> pyobj"

definition load_global :: "namespace \<Rightarrow> string \<Rightarrow> error + pyobj" where
  "load_global G n = (case G n of None \<Rightarrow> Inl (NameError n) | Some v \<Rightarrow> Inr v)"

text \<open>
  The global namespace of the module \<open>shape.py\<close> once it is imported: the names
  it imports and the names it defines, in the order of the file.
\<close>

definition module_globals :: namespace where
  "module_globals = map_of
     [(''weakref'', Val (PyObj ''weakref'')),
      (''deepcopy'', Val (PyObj ''copy.deepcopy'')),
      (''shapely'', Val (PyObj ''shapely'')),
      (''loads'', Val (PyObj ''shapely.wkt.loads'')),
      (''scale'', Val (PyObj ''shapely.affinity.scale'')),
      (''Point'', Val (PyObj ''shapely.geometry.Point'')),
      (''Polygon'', Val (PyObj ''shapely.geometry.Polygon'')),
      (''np'', Val (PyObj ''numpy'')),
      (''uniform'', Val (PyObj ''numpy.random.uniform'')),
      (''pnc'', Val (PyObj ''PyNCulture'')),
      (''conversion_magnitude'', Val (PyObj ''geom_utils.conversion_magnitude'')),
      (''__all__'', Val (PyObj ''list'')),
      (''Shape'', Val (PyObj ''Shape'')),
      (''Area'', Val (PyObj ''Area'')),
      (''_PDict'', Val (PyObj ''_PDict''))]"

text \<open>What an attribute access or a method of the geometry library needs of an object.\<close>

definition geom_of :: "pyobj \<Rightarrow> error + geom" where
  "geom_of x =
     (case x of
        ShapeObj s \<Rightarrow> Inr (Poly (sh_geom s))
      | AreaObj a \<Rightarrow> Inr (Poly (ar_geom a))
      | Val (PyGeom g) \<Rightarrow> Inr g
      | Val _ \<Rightarrow> Inl (AttributeError ''object is not a geometry''))"

definition areas_of :: "pyobj \<Rightarrow> error + (string \<times> area option) list" where
  "areas_of x =
     (case x of
        ShapeObj s \<Rightarrow> Inr (sh_areas s)
      | _ \<Rightarrow> Inl (AttributeError ''_areas''))"

text \<open>An object as it is kept in an attribute of an area (a shape is kept by its polygon).\<close>

definition attr_of :: "pyobj \<Rightarrow> pyval" where
  "attr_of x =
     (case x of
        Val v \<Rightarrow> v
      | ShapeObj s \<Rightarrow> PyGeom (Poly (sh_geom s))
      | AreaObj a \<Rightarrow> PyGeom (Poly (ar_geom a)))"

text \<open>\<open>d[key] = v\<close> on a \<open>dict\<close> kept as an association list.\<close>

fun dict_set :: "string \<Rightarrow> 'v \<Rightarrow> (string \<times> 'v) list \<Rightarrow> (string \<times> 'v) list" where
  "dict_set k v [] = [(k, v)]"
| "dict_set k v ((k', v') # d) = (if k = k' then (k, v) # d else (k', v') # dict_set k v d)"

text \<open>\<open>"area{}".format(n)\<close>: the decimal digits of \<open>n\<close>.\<close>

fun str_of_nat :: "nat \<Rightarrow> string" where
  "str_of_nat n =
     (if n < 10 then [char_of (48 + n)]
      else str_of_nat (n div 10) @ [char_of (48 + n mod 10)])"

text \<open>
  The loop of lines 358-361: the assertion that the new area overlaps no area other
  than the default one, in the order of the dictionary.
\<close>

fun check_overlaps :: "engine \<Rightarrow> geom \<Rightarrow> (string \<times> area option) list \<Rightarrow> error + unit" where
  "check_overlaps eng intersection [] = Inr ()"
| "check_overlaps eng intersection ((key, existing_area) # items) =
     (if key \<noteq> ''default_area'' then
        (case existing_area of
           None \<Rightarrow> Inl (AttributeError ''NoneType object is not a geometry'')
         | Some a \<Rightarrow>
             (case eng_overlaps eng intersection (Poly (ar_geom a)) of
                Inl e \<Rightarrow> Inl e
              | Inr ov \<Rightarrow>
                  if ov then Inl (AssertionError ''Areas of a given Shape should not overlap.'')
                  else check_overlaps eng intersection items))
      else check_overlaps eng intersection items)"

text \<open>
  Lines 354-375 of \<open>add_area\<close>, which change nothing: the name, the intersection,
  the overlap check, the height and the properties, and the new area. The
  parameters are \<open>area\<close>, \<open>height\<close>, \<open>name\<close> and \<open>properties\<close>; there is no
  parameter \<open>self\<close> and the body never assigns \<open>self\<close>, so every \<open>self\<close> of
  the body is a lookup in the global namespace \<open>G\<close>. The result is the key and the
  new area.
\<close>

definition add_area_prepare ::
  "engine \<Rightarrow> namespace \<Rightarrow> pyobj \<Rightarrow> pyobj \<Rightarrow> pyobj \<Rightarrow> pyobj \<Rightarrow> error + (string \<times> area option)" where
  "add_area_prepare eng G area height name properties =
     (case (if name = Val PyNone then
              (case load_global G ''self'' of
                 Inl e \<Rightarrow> Inl e
               | Inr self \<Rightarrow>
                   (case areas_of self of
                      Inl e \<Rightarrow> Inl e
                    | Inr areas \<Rightarrow> Inr (Val (PyStr (''area'' @ str_of_nat (length areas))))))
            else Inr name) of
        Inl e \<Rightarrow> Inl e
      | Inr name \<Rightarrow>
     (case load_global G ''self'' of
        Inl e \<Rightarrow> Inl e
      | Inr self \<Rightarrow>
     (case geom_of self of
        Inl e \<Rightarrow> Inl e
      | Inr self_geom \<Rightarrow>
     (case geom_of area of
        Inl e \<Rightarrow> Inl e
      | Inr area_geom \<Rightarrow>
     (case eng_intersection eng self_geom area_geom of
        Inl e \<Rightarrow> Inl e
      | Inr intersection \<Rightarrow>
     (case load_global G ''self'' of
        Inl e \<Rightarrow> Inl e
      | Inr self \<Rightarrow>
     (case areas_of self of
        Inl e \<Rightarrow> Inl e
      | Inr areas \<Rightarrow>
     (case check_overlaps eng intersection areas of
        Inl e \<Rightarrow> Inl e
      | Inr _ \<Rightarrow>
          let height = (if height = Val PyNone then
                          (case area of AreaObj a \<Rightarrow> Val (ar_height a)
                           | _ \<Rightarrow> Val (PyFloat (Num 0)))
                        else height);
              properties = (if properties = Val PyNone then
                              (case area of AreaObj a \<Rightarrow> Val (PyDict (ar_prop a))
                               | _ \<Rightarrow> Val (PyDict Map.empty))
                            else properties)
          in
     (case from_shape intersection (attr_of height) (attr_of name) (attr_of properties)
             ''um'' None None of
        Inl e \<Rightarrow> Inl e
      | Inr new_area \<Rightarrow>
     (case name of
        Val (PyStr key) \<Rightarrow> Inr (key, new_area)
      | _ \<Rightarrow> Inl (TypeError ''the key of an area is a string'')))))))))))"

text \<open>
  \<open>self._areas[name] = v\<close>: the object named \<open>self\<close> is looked up and its
  dictionary is updated in place, which the model writes back under that name.
\<close>

definition store_area :: "namespace \<Rightarrow> string \<Rightarrow> area option \<Rightarrow> error + namespace" where
  "store_area G key v =
     (case load_global G ''self'' of
        Inl e \<Rightarrow> Inl e
      | Inr self \<Rightarrow>
          (case self of
             ShapeObj s \<Rightarrow> Inr (G(''self'' \<mapsto> ShapeObj (s\<lparr>sh_areas := dict_set key v (sh_areas s)\<rparr>)))
           | _ \<Rightarrow> Inl (AttributeError ''_areas'')))"

text \<open>
  Lines 378-382: the new default area, the difference of the stored default area and
  the new area, with the default area's own height and properties.
\<close>

definition new_default_area ::
  "engine \<Rightarrow> namespace \<Rightarrow> area option \<Rightarrow> error + area option" where
  "new_default_area eng G new_area =
     (case load_global G ''self'' of
        Inl e \<Rightarrow> Inl e
      | Inr self \<Rightarrow>
     (case areas_of self of
        Inl e \<Rightarrow> Inl e
      | Inr areas \<Rightarrow>
     (case map_of areas ''default_area'' of
        None \<Rightarrow> Inl (KeyError ''default_area'')
      | Some None \<Rightarrow> Inl (AttributeError ''NoneType object has no attribute difference'')
      | Some (Some default_area) \<Rightarrow>
     (case new_area of
        None \<Rightarrow> Inl (AttributeError ''NoneType object is not a geometry'')
      | Some a \<Rightarrow>
     (case eng_difference eng (Poly (ar_geom default_area)) (Poly (ar_geom a)) of
        Inl e \<Rightarrow> Inl e
      | Inr new_default \<Rightarrow>
          from_shape new_default (ar_height default_area) (PyStr ''default_area'')
            (PyDict (ar_prop default_area)) ''um'' None None)))))"

text \<open>
  \<open>Shape.add_area\<close>, the function as it is defined: it takes the global namespace
  and the four parameters, and returns the exception it raises (\<open>None\<close> when it
  returns) with the namespace as the call leaves it.
\<close>

definition add_area ::
  "engine \<Rightarrow> namespace \<Rightarrow> pyobj \<Rightarrow> pyobj \<Rightarrow> pyobj \<Rightarrow> pyobj \<Rightarrow> error option \<times> namespace" where
  "add_area eng G area height name properties =
     (case add_area_prepare eng G area height name properties of
        Inl e \<Rightarrow> (Some e, G)
      | Inr (key, new_area) \<Rightarrow>
     (case store_area G key new_area of
        Inl e \<Rightarrow> (Some e, G)
      | Inr G1 \<Rightarrow>
     (case new_default_area eng G1 new_area of
        Inl e \<Rightarrow> (Some e, G1)
      | Inr d \<Rightarrow>
     (case store_area G1 ''default_area'' d of
        Inl e \<Rightarrow> (Some e, G1)
      | Inr G2 \<Rightarrow> (None, G2)))))"

text \<open>
  A call \<open>s.add_area(a1, ..., k1=v1, ...)\<close> on a shape \<open>s\<close>: the bound method
  passes \<open>s\<close> as the first positional argument. Python binds the positional
  arguments to the parameters in order, then the keyword arguments by name, and the
  parameters left take their default \<open>None\<close>; it raises a \<open>TypeError\<close> for too
  many positional arguments, for a keyword that is no parameter and for a parameter
  given twice.
\<close>

definition add_area_params :: "string list" where
  "add_area_params = [''area'', ''height'', ''name'', ''properties'']"

fun bind_keywords :: "string list \<Rightarrow> (string \<times> pyobj) list \<Rightarrow> (string \<times> pyobj) list
    \<Rightarrow> error + (string \<times> pyobj) list" where
  "bind_keywords params bound [] = Inr bound"
| "bind_keywords params bound ((k, v) # kws) =
     (if k \<notin> set params then Inl (TypeError ''got an unexpected keyword argument'')
      else if k \<in> fst ` set bound then Inl (TypeError ''got multiple values for argument'')
      else bind_keywords params (bound @ [(k, v)]) kws)"

definition bind_arguments :: "string list \<Rightarrow> pyobj list \<Rightarrow> (string \<times> pyobj) list
    \<Rightarrow> error + (string \<Rightarrow> pyobj)" where
  "bind_arguments params args kwargs =
     (if length params < length args then
        Inl (TypeError ''takes from 1 to 4 positional arguments but more were given'')
      else
        (case bind_keywords params (zip params args) kwargs of
           Inl e \<Rightarrow> Inl e
         | Inr bound \<Rightarrow>
             Inr (\<lambda>p. case map_of bound p of None \<Rightarrow> Val PyNone | Some v \<Rightarrow> v)))"

definition call_add_area ::
  "engine \<Rightarrow> namespace \<Rightarrow> shape \<Rightarrow> pyobj list \<Rightarrow> (string \<times> pyobj) list
   \<Rightarrow> error option \<times> namespace" where
  "call_add_area eng G s args kwargs =
     (case bind_arguments add_area_params (ShapeObj s # args) kwargs of
        Inl e \<Rightarrow> (Some e, G)
      | Inr b \<Rightarrow> add_area eng G (b ''area'') (b ''height'') (b ''name'') (b ''properties''))"

section \<open>Seeding positions\<close>

text \<open>
  \<open>np.sqrt\<close>, \<open>np.cos\<close> and \<open>np.sin\<close>, and the builtins \<open>max(a, b)\<close> and
  \<open>min(a, b)\<close>, which keep their first argument unless the second one is strictly
  beyond it.
\<close>

fun fsqrt :: "pyfloat \<Rightarrow> pyfloat" where
  "fsqrt (Num a) = (if a < 0 then NaN else Num (sqrt a))"
| "fsqrt PosInf = PosInf"
| "fsqrt _ = NaN"

fun fcos :: "pyfloat \<Rightarrow> pyfloat" where
  "fcos (Num a) = Num (cos a)"
| "fcos _ = NaN"

fun fsin :: "pyfloat \<Rightarrow> pyfloat" where
  "fsin (Num a) = Num (sin a)"
| "fsin _ = NaN"

definition pymax :: "pyfloat \<Rightarrow> pyfloat \<Rightarrow> pyfloat" where
  "pymax a b = (if fgt b a then b else a)"

definition pymin :: "pyfloat \<Rightarrow> pyfloat \<Rightarrow> pyfloat" where
  "pymin a b = (if flt b a then b else a)"

text \<open>
  \<open>numpy.random.uniform(low, high, size)\<close> is a parameter: it takes the state of
  the generator and returns the draws and the new state.
\<close>

type_synonym 'r sampler = "pyfloat \<Rightarrow> pyfloat \<Rightarrow> nat \<Rightarrow> 'r \<Rightarrow> pyfloat list \<times> 'r"

text \<open>Lines 468-472, the rectangle: two independent uniform draws per point.\<close>

definition seed_rectangle ::
  "'r sampler \<Rightarrow> pyfloat \<Rightarrow> pyfloat \<Rightarrow> pyfloat \<Rightarrow> pyfloat \<Rightarrow> nat \<Rightarrow> pyfloat \<Rightarrow> 'r
   \<Rightarrow> point list \<times> 'r" where
  "seed_rectangle uniform min_x min_y max_x max_y neurons soma_radius rng =
     (case uniform (fadd min_x soma_radius) (fsub max_x soma_radius) neurons rng of
        (xx, rng1) \<Rightarrow>
          (case uniform (fadd min_y soma_radius) (fsub max_y soma_radius) neurons rng1 of
             (yy, rng2) \<Rightarrow> (zip xx yy, rng2)))"

text \<open>
  Lines 475-481, the disk: an angle in \<open>[0, 2 pi)\<close> and a radius
  \<open>(R - soma_radius) * sqrt(u)\<close> with \<open>u\<close> drawn from \<open>[0, 0.99)\<close>, around
  \<open>self.centroid\<close>. \<open>self.radius\<close> is an attribute only \<open>disk\<close> sets.
\<close>

definition disk_point :: "pyfloat \<Rightarrow> pyfloat \<Rightarrow> point \<Rightarrow> pyfloat \<Rightarrow> pyfloat \<Rightarrow> point" where
  "disk_point radius soma_radius c theta u =
     (let r = fmul (fsub radius soma_radius) (fsqrt u)
      in (fadd (fmul r (fcos theta)) (fst c), fadd (fmul r (fsin theta)) (snd c)))"

definition seed_disk ::
  "engine \<Rightarrow> 'r sampler \<Rightarrow> shape \<Rightarrow> nat \<Rightarrow> pyfloat \<Rightarrow> 'r \<Rightarrow> error + point list \<times> 'r" where
  "seed_disk eng uniform self neurons soma_radius rng =
     (case uniform (Num 0) (Num (2 * pi)) neurons rng of
        (theta, rng1) \<Rightarrow>
          (case sh_radius self of
             None \<Rightarrow> Inl (AttributeError ''radius'')
           | Some radius \<Rightarrow>
               (case uniform (Num 0) (Num 0.99) neurons rng1 of
                  (us, rng2) \<Rightarrow>
                    (case eng_centroid eng (sh_geom self) of
                       Inl e \<Rightarrow> Inl e
                     | Inr c \<Rightarrow>
                         Inr (map (\<lambda>(t, u). disk_point radius soma_radius c t u) (zip theta us),
                              rng2)))))"

text \<open>
  The rejection loop of lines 500-506. Each round draws as many candidates as there
  are points missing and keeps the ones the seed area contains. The loop need not
  end: \<open>None\<close> is a loop that runs forever.
\<close>

partial_function (option) seed_loop ::
  "engine \<Rightarrow> 'r sampler \<Rightarrow> polygon \<Rightarrow> pyfloat \<Rightarrow> pyfloat \<Rightarrow> pyfloat \<Rightarrow> pyfloat \<Rightarrow> nat
   \<Rightarrow> point list \<Rightarrow> 'r \<Rightarrow> (point list \<times> 'r) option" where
  "seed_loop eng uniform seed_area min_x max_x min_y max_y neurons points rng =
     (if length points < neurons then
        (case uniform min_x max_x (neurons - length points) rng of
           (new_x, rng1) \<Rightarrow>
             (case uniform min_y max_y (neurons - length points) rng1 of
                (new_y, rng2) \<Rightarrow>
                  seed_loop eng uniform seed_area min_x max_x min_y max_y neurons
                    (points @ filter (eng_contains eng seed_area) (zip new_x new_y)) rng2))
      else Some (points, rng))"

text \<open>
  Lines 490-507, the generic path. The locals \<open>min_x\<close>, \<open>min_y\<close>, \<open>max_x\<close>
  and \<open>max_y\<close> are assigned together at line 461, in the branch without a
  container only: \<open>bnds\<close> is \<open>None\<close> while they are unbound, and reading an
  unbound local raises an \<open>UnboundLocalError\<close>. The arguments of
  \<open>Shape.from_polygon\<close> are evaluated in order: the buffer first, then
  \<open>min_x + soma_radius\<close>. What \<open>from_polygon\<close> returns is a \<open>Shape\<close>, so the
  \<open>isinstance\<close> test of line 494 never fails.
\<close>

definition seed_custom ::
  "engine \<Rightarrow> 'r sampler \<Rightarrow> shape \<Rightarrow> geom \<Rightarrow> (pyfloat \<times> pyfloat \<times> pyfloat \<times> pyfloat) option
   \<Rightarrow> nat \<Rightarrow> pyfloat \<Rightarrow> 'r \<Rightarrow> (error + point list \<times> 'r) option" where
  "seed_custom eng uniform self container bnds neurons soma_radius rng =
     (case eng_intersection eng (Poly (sh_geom self)) container of
        Inl e \<Rightarrow> Some (Inl e)
      | Inr seed_area \<Rightarrow>
     (case eng_buffer eng seed_area (fneg soma_radius) of
        Inl e \<Rightarrow> Some (Inl e)
      | Inr eroded \<Rightarrow>
     (case bnds of
        None \<Rightarrow> Some (Inl (UnboundLocalError ''min_x''))
      | Some (min_x, min_y, max_x, max_y) \<Rightarrow>
     (case from_polygon eroded (Some (fadd min_x soma_radius)) (Some (fsub max_x soma_radius))
             ''um'' None PyNone of
        Inl e \<Rightarrow> Some (Inl e)
      | Inr seed_shape \<Rightarrow>
          map_option Inr
            (seed_loop eng uniform (sh_geom seed_shape) min_x max_x min_y max_y neurons []
               rng)))))"

text \<open>
  Lines 509-510. \<open>conversion_magnitude\<close> is a function of the package's
  \<open>geom_utils\<close>; it is a parameter \<open>conv\<close>.
\<close>

definition convert_unit ::
  "(string \<Rightarrow> string \<Rightarrow> pyfloat) \<Rightarrow> shape \<Rightarrow> string option \<Rightarrow> point list \<Rightarrow> point list" where
  "convert_unit conv self unit positions =
     (case unit of
        None \<Rightarrow> positions
      | Some u \<Rightarrow>
          if u \<noteq> sh_unit self then
            map (\<lambda>(x, y). (fmul x (conv u (sh_unit self)), fmul y (conv u (sh_unit self))))
              positions
          else positions)"

text \<open>
  \<open>Shape.seed_neurons\<close>. An omitted bound is \<open>None\<close>; \<open>soma_radius\<close> defaults
  to 0. The result is \<open>None\<close> when the call never returns, an exception, or the
  positions with the state of the generator.
\<close>

definition seed_neurons ::
  "engine \<Rightarrow> 'r sampler \<Rightarrow> (string \<Rightarrow> string \<Rightarrow> pyfloat) \<Rightarrow> shape \<Rightarrow> nat option \<Rightarrow> geom option
   \<Rightarrow> pyfloat option \<Rightarrow> pyfloat option \<Rightarrow> pyfloat option \<Rightarrow> pyfloat option \<Rightarrow> pyfloat
   \<Rightarrow> string option \<Rightarrow> 'r \<Rightarrow> (error + point list \<times> 'r) option" where
  "seed_neurons eng uniform conv self neurons container xmin xmax ymin ymax soma_radius unit rng =
     (case (case sh_parent self of
              None \<Rightarrow> Inr neurons
            | Some node_nb \<Rightarrow> (case node_nb of Inl e \<Rightarrow> Inl e | Inr n \<Rightarrow> Inr (Some n))) of
        Inl e \<Rightarrow> Some (Inl e)
      | Inr None \<Rightarrow> Some (Inl (ValueError ''`neurons` cannot be None if `parent` is None.''))
      | Inr (Some neurons) \<Rightarrow>
          map_option (map_sum id (\<lambda>(positions, rng'). (convert_unit conv self unit positions, rng')))
            (case container of
               None \<Rightarrow>
                 (let xmin = (case xmin of None \<Rightarrow> NegInf | Some v \<Rightarrow> v);
                      ymin = (case ymin of None \<Rightarrow> NegInf | Some v \<Rightarrow> v);
                      xmax = (case xmax of None \<Rightarrow> PosInf | Some v \<Rightarrow> v);
                      ymax = (case ymax of None \<Rightarrow> PosInf | Some v \<Rightarrow> v)
                  in case bounds (sh_geom self) of
                       None \<Rightarrow> Some (Inl (ValueError ''not enough values to unpack''))
                     | Some (bx0, by0, bx1, by1) \<Rightarrow>
                         (let min_x = pymax xmin bx0;
                              min_y = pymax ymin by0;
                              max_x = pymin xmax bx1;
                              max_y = pymin ymax by1
                          in if sh_geom_type self = ''Rectangle'' then
                               Some (Inr (seed_rectangle uniform min_x min_y max_x max_y neurons
                                            soma_radius rng))
                             else if sh_geom_type self = ''Disk''
                                     \<and> feq xmin bx0 \<and> feq ymin by0 \<and> feq xmax bx1 \<and> feq ymax by1 then
                               Some (seed_disk eng uniform self neurons soma_radius rng)
                             else
                               (case eng_new_polygon eng
                                       [(min_x, min_y), (min_x, max_y), (max_x, max_y),
                                        (max_x, min_y)] None of
                                  Inl e \<Rightarrow> Some (Inl e)
                                | Inr box \<Rightarrow>
                                    seed_custom eng uniform self (Poly box)
                                      (Some (min_x, min_y, max_x, max_y)) neurons soma_radius
                                      rng)))
             | Some c \<Rightarrow> seed_custom eng uniform self c None neurons soma_radius rng))"

text \<open>
  One geometry engine and one generator, the inputs of the closed examples below.
  The engine builds a polygon from three points or more, buffers a point into the
  square on its four axis points, returns the first argument of an intersection, a
  difference or a buffer, reports every overlap and every containment and puts every
  centroid at the origin; the generator returns the lower bound every time. The
  theorems that are not closed hold for every engine and every generator.
\<close>

definition sample_engine :: engine where
  "sample_engine =
     \<lparr>eng_new_polygon = (\<lambda>shell holes.
         if length shell < 3 then Inl (ValueError ''a ring has at least 3 points'')
         else Inr (Polygon (shell @ [hd shell]) (case holes of None \<Rightarrow> [] | Some hs \<Rightarrow> hs))),
      eng_point_buffer = (\<lambda>c r.
         Inr (Polygon [(fadd (fst c) r, snd c), (fst c, fsub (snd c) r), (fsub (fst c) r, snd c),
                       (fst c, fadd (snd c) r), (fadd (fst c) r, snd c)] [])),
      eng_intersection = (\<lambda>a b. Inr a),
      eng_difference = (\<lambda>a b. Inr a),
      eng_overlaps = (\<lambda>a b. Inr True),
      eng_buffer = (\<lambda>g d. Inr g),
      eng_contains = (\<lambda>g pt. True),
      eng_centroid = (\<lambda>g. Inr (Num 0, Num 0))\<rparr>"

definition sample_uniform :: "nat sampler" where
  "sample_uniform low high n rng = (replicate n low, rng + 1)"

definition sample_conv :: "string \<Rightarrow> string \<Rightarrow> pyfloat" where
  "sample_conv u v = Num 1"

text \<open>
  Two regions for the closed examples: the square of side 10 as a constructor leaves
  it, and the same square with an area \<open>a\<close> stored in its partition.
\<close>

definition sample_region :: shape where
  "sample_region =
     \<lparr>sh_geom = Polygon [(Num 0, Num 0), (Num 10, Num 0), (Num 10, Num 10), (Num 0, Num 10),
                         (Num 0, Num 0)] [],
      sh_parent = None, sh_unit = ''um'', sh_geom_type = ''Polygon'',
      sh_areas = [(''default_area'', None)], sh_radius = None, sh_radii = None\<rparr>"

definition sample_partitioned :: shape where
  "sample_partitioned =
     sample_region\<lparr>sh_areas :=
       [(''default_area'', None),
        (''a'', Some \<lparr>ar_geom = Polygon [(Num 0, Num 0), (Num 5, Num 0), (Num 5, Num 5),
                                       (Num 0, Num 5), (Num 0, Num 0)] [],
                     ar_parent = None, ar_unit = ''um'', ar_geom_type = ''Polygon'',
                     ar_height = PyFloat (Num 0), ar_name = PyStr ''a'',
                     ar_prop = Map.empty\<rparr>)]\<rparr>"

text \<open>The disk of radius 1 around the origin, as \<open>disk\<close> builds it with this engine.\<close>

definition sample_disk :: shape where
  "sample_disk =
     \<lparr>sh_geom = Polygon [(Num 1, Num 0), (Num 0, Num (- 1)), (Num (- 1), Num 0), (Num 0, Num 1),
                         (Num 1, Num 0)] [],
      sh_parent = None, sh_unit = ''um'', sh_geom_type = ''Disk'',
      sh_areas = [(''default_area'', None)], sh_radius = Some (Num 1), sh_radii = None\<rparr>"

section \<open>Objects with identity: the \<open>areas\<close> property\<close>

text \<open>
  The records above are values: they say what a shape holds, not which object holds
  it. What \<open>areas\<close> returns can be told from the partition it copies only in a
  store of objects. An address is an index into the store; a \<open>dict\<close> value is
  \<open>None\<close> or the address of an object. The objects are a \<open>Shape\<close> (the address
  of its \<open>_areas\<close>), the \<open>dict\<close> of a partition, an \<open>Area\<close> (its polygon,
  height and name, and the address of its \<open>_prop\<close>) and a \<open>_PDict\<close>.
\<close>

type_synonym addr = nat

datatype href = RNone | RObj addr

datatype hobj =
    HShape addr
  | HDict "(string \<times> href) list"
  | HArea polygon pyval pyval addr
  | HPDict "(string \<times> pyfloat) list"

type_synonym heap = "hobj list"

type_synonym memo = "addr \<rightharpoonup> addr"

definition lookup :: "heap \<Rightarrow> addr \<Rightarrow> hobj option" where
  "lookup h a = (if a < length h then Some (h ! a) else None)"

text \<open>
  \<open>copy.deepcopy(x, memo)\<close>, for the values of a partition. \<open>None\<close> is
  returned as it is, and so are strings, the keys. For an object the memo is looked
  up first: it maps the address of every object already copied to its copy, which is
  returned for it. An object that is not there is rebuilt from what its
  \<open>__reduce_ex__\<close> returns. An \<open>Area\<close> is a geometry of the library, and so is a
  \<open>Shape\<close>; the library's geometries reduce to \<open>(self.__class__, (), self.wkb)\<close>:
  the copy is made by calling the class with no argument, and its state is set after
  that. \<open>Area.__init__\<close> and \<open>Shape.__init__\<close> have a required parameter
  \<open>shell\<close>, so the call raises a \<open>TypeError\<close>, before anything is allocated or
  entered in the memo. The values of a partition are \<open>None\<close> or areas: a store
  in which a partition holds anything else (a \<open>dict\<close>, a \<open>_PDict\<close>, an address
  with no object) describes no state of the module, and the last case below only
  makes the function total.
\<close>

definition deepcopy_area :: "heap \<Rightarrow> memo \<Rightarrow> addr \<Rightarrow> error + (addr \<times> heap \<times> memo)" where
  "deepcopy_area h memo x =
     (case memo x of
        Some y \<Rightarrow> Inr (y, h, memo)
      | None \<Rightarrow>
          (case lookup h x of
             Some (HArea g height name prop) \<Rightarrow>
               Inl (TypeError ''__init__() missing 1 required positional argument: shell'')
           | Some (HShape d) \<Rightarrow>
               Inl (TypeError ''__init__() missing 1 required positional argument: shell'')
           | _ \<Rightarrow> Inl (TypeError ''not an Area'')))"

text \<open>
  The copy of a \<open>dict\<close>: a new \<open>dict\<close>, entered in the memo first and filled with
  the copies of the values, in the order of the items.
\<close>

fun deepcopy_items ::
  "heap \<Rightarrow> memo \<Rightarrow> (string \<times> href) list \<Rightarrow> error + ((string \<times> href) list \<times> heap \<times> memo)" where
  "deepcopy_items h memo [] = Inr ([], h, memo)"
| "deepcopy_items h memo ((key, RNone) # items) =
     (case deepcopy_items h memo items of
        Inl e \<Rightarrow> Inl e
      | Inr (items', h', memo') \<Rightarrow> Inr ((key, RNone) # items', h', memo'))"
| "deepcopy_items h memo ((key, RObj x) # items) =
     (case deepcopy_area h memo x of
        Inl e \<Rightarrow> Inl e
      | Inr (y, h1, memo1) \<Rightarrow>
          (case deepcopy_items h1 memo1 items of
             Inl e \<Rightarrow> Inl e
           | Inr (items', h', memo') \<Rightarrow> Inr ((key, RObj y) # items', h', memo')))"

definition deepcopy_dict :: "heap \<Rightarrow> memo \<Rightarrow> addr \<Rightarrow> error + (addr \<times> heap \<times> memo)" where
  "deepcopy_dict h memo x =
     (case memo x of
        Some y \<Rightarrow> Inr (y, h, memo)
      | None \<Rightarrow>
          (case lookup h x of
             Some (HDict items) \<Rightarrow>
               (let y = length h in
                case deepcopy_items (h @ [HDict []]) (memo(x \<mapsto> y)) items of
                  Inl e \<Rightarrow> Inl e
                | Inr (items', h', memo') \<Rightarrow> Inr (y, h'[y := HDict items'], memo'))
           | _ \<Rightarrow> Inl (TypeError ''not a dict'')))"

text \<open>
  The property \<open>Shape.areas\<close>, \<open>deepcopy(self._areas)\<close>, and \<open>Area.areas\<close>,
  which raises. The result is the address of the copy and the store after the call.
\<close>

definition Shape_areas :: "heap \<Rightarrow> addr \<Rightarrow> error + (addr \<times> heap)" where
  "Shape_areas h self =
     (case lookup h self of
        Some (HShape d) \<Rightarrow>
          (case deepcopy_dict h Map.empty d of
             Inl e \<Rightarrow> Inl e
           | Inr (y, h', memo') \<Rightarrow> Inr (y, h'))
      | Some (HArea g height name prop) \<Rightarrow> Inl (AttributeError ''Areas do not have sub-Areas.'')
      | _ \<Rightarrow> Inl (AttributeError ''_areas''))"

text \<open>
  A store for the closed example: a region whose partition holds the default entry
  and one area, \<open>a\<close>, with its properties.
\<close>

definition sample_heap :: heap where
  "sample_heap =
     [HShape 1,
      HDict [(''default_area'', RNone), (''a'', RObj 2)],
      HArea (Polygon [(Num 0, Num 0), (Num 5, Num 0), (Num 5, Num 5), (Num 0, Num 5), (Num 0, Num 0)] [])
        (PyFloat (Num 0)) (PyStr ''a'') 3,
      HPDict [(''speed'', Num 2)]]"

section \<open>Properties of \<open>_PDict\<close>\<close>

lemma fge_zero_iff: "fge v (Num 0) \<longleftrightarrow> (v = PosInf \<or> (\<exists>r\<ge>0. v = Num r))"
  by (cases v) (auto simp: fge_def fle_def feq_def)

lemma flt_zero_iff: "flt v (Num 0) \<longleftrightarrow> (v = NegInf \<or> (\<exists>r<0. v = Num r))"
  by (cases v) auto

text \<open>
  Claim C9. Looking up an absent key gives the neutral value 1.0 instead of failing;
  setting a key to a negative value (which is then not NaN) fails with an
  \<open>AssertionError\<close> and leaves the dictionary as it was; setting a key to NaN or to
  a non-negative real succeeds and stores the value.
\<close>

theorem PDict_read_write:
  "(self key = None \<longrightarrow> PDict_getitem self key = Num 1)
   \<and> (flt val (Num 0) \<longrightarrow>
        (\<exists>msg. PDict_setitem self key val = (Some (AssertionError msg), self)))
   \<and> (isnan val \<or> (\<exists>r\<ge>0. val = Num r) \<longrightarrow>
        PDict_setitem self key val = (None, self(key \<mapsto> val)))"
proof (intro conjI impI)
  assume "self key = None"
  then show "PDict_getitem self key = Num 1"
    by (simp add: PDict_getitem_def dom_def)
next
  assume neg: "flt val (Num 0)"
  then have "\<not> fge val (Num 0)" "\<not> isnan val"
    by (auto simp: flt_zero_iff fge_zero_iff)
  then show "\<exists>msg. PDict_setitem self key val = (Some (AssertionError msg), self)"
    by (simp add: PDict_setitem_def)
next
  assume "isnan val \<or> (\<exists>r\<ge>0. val = Num r)"
  then have "fge val (Num 0) \<or> isnan val"
    by (auto simp: fge_zero_iff)
  then show "PDict_setitem self key val = (None, self(key \<mapsto> val))"
    by (simp add: PDict_setitem_def)
qed

theorem PDict_read_write_witness:
  "PDict_getitem Map.empty ''nonexistent'' = Num 1
   \<and> fst (PDict_setitem Map.empty ''k'' (Num (- 1))) \<noteq> None
   \<and> snd (PDict_setitem Map.empty ''k'' (Num (- 1))) = Map.empty
   \<and> PDict_setitem Map.empty ''k'' NaN = (None, [''k'' \<mapsto> NaN])
   \<and> PDict_setitem Map.empty ''k'' (Num 2) = (None, [''k'' \<mapsto> Num 2])"
proof -
  have a: "(Map.empty :: pdict) ''nonexistent'' = None" by simp
  have b: "flt (Num (- 1)) (Num 0)" by simp
  have c: "isnan NaN \<or> (\<exists>r\<ge>0. NaN = Num r)" by simp
  have d: "isnan (Num 2) \<or> (\<exists>r\<ge>0. Num 2 = Num r)" by simp
  from PDict_read_write [of Map.empty "''nonexistent''" "Num 2"] a
  have e: "PDict_getitem Map.empty ''nonexistent'' = Num 1" by blast
  from PDict_read_write [of Map.empty "''k''" "Num (- 1)"] b
  have f: "\<exists>msg. PDict_setitem Map.empty ''k'' (Num (- 1)) = (Some (AssertionError msg), Map.empty)"
    by blast
  from PDict_read_write [of Map.empty "''k''" NaN] c
  have g: "PDict_setitem Map.empty ''k'' NaN = (None, [''k'' \<mapsto> NaN])" by blast
  from PDict_read_write [of Map.empty "''k''" "Num 2"] d
  have h: "PDict_setitem Map.empty ''k'' (Num 2) = (None, [''k'' \<mapsto> Num 2])" by blast
  from f have "fst (PDict_setitem Map.empty ''k'' (Num (- 1))) \<noteq> None"
    and "snd (PDict_setitem Map.empty ''k'' (Num (- 1))) = Map.empty"
    by auto
  with e g h show ?thesis by simp
qed


section \<open>Properties of the constructors\<close>

lemmas geom_eval = from_polygon_def from_shape_def find_scaling_def np_min_def np_max_def
  np_minimum_def np_maximum_def scale_def linear_ring_def same_point_def feq_def bounds_def
  env_min_def env_max_def affine_pt_def fsub_def inf_of_sign_def PDict_new_def Let_def

lemma from_shape_None:
  "from_shape g h n props u mn mx = Inr a \<Longrightarrow> a = None"
  by (auto simp: from_shape_def Let_def split: geom.splits sum.splits if_splits)

lemma from_polygon_areas:
  "from_polygon g mn mx u par props = Inr s \<Longrightarrow> sh_areas s = [(''default_area'', None)]"
  by (auto simp: from_polygon_def Let_def split: geom.splits sum.splits if_splits
      dest: from_shape_None)

lemma Shape_init_areas:
  "Shape_init eng shell holes u par props = Inr s \<Longrightarrow> sh_areas s = [(''default_area'', None)]"
  by (auto simp: Shape_init_def split: sum.splits dest: from_shape_None)

lemma rectangle_areas:
  "rectangle eng h w c u par props = Inr s \<Longrightarrow> sh_areas s = [(''default_area'', None)]"
  by (auto simp: rectangle_def Let_def split: sum.splits dest: Shape_init_areas)

lemma disk_areas:
  "disk eng r c u par props = Inr s \<Longrightarrow> sh_areas s = [(''default_area'', None)]"
  by (auto simp: disk_def Let_def split: sum.splits dest: from_polygon_areas)

lemma ellipse_areas:
  "ellipse eng r c u par props = Inr s \<Longrightarrow> sh_areas s = [(''default_area'', None)]"
  by (auto simp: ellipse_def Let_def split: sum.splits dest: from_polygon_areas)

text \<open>
  Claim C1 says that a freshly constructed region holds exactly one \<open>Area\<close> under
  the key \<open>default_area\<close>, with the region's geometry, height 0 and no property.
  The code does not do that: \<open>Area.from_shape\<close> has no \<open>return\<close>, so what every
  constructor stores under \<open>default_area\<close> is \<open>None\<close>. The theorem evaluates the
  plain constructor on the unit square, and states the same of every constructor
  whenever it returns a region.
\<close>

theorem fresh_region_default_area_is_None:
  "Shape_init sample_engine [(Num 0, Num 0), (Num 1, Num 0), (Num 1, Num 1), (Num 0, Num 1)]
       None ''um'' None PyNone =
     Inr \<lparr>sh_geom = Polygon [(Num 0, Num 0), (Num 1, Num 0), (Num 1, Num 1), (Num 0, Num 1),
                              (Num 0, Num 0)] [],
          sh_parent = None, sh_unit = ''um'', sh_geom_type = ''Polygon'',
          sh_areas = [(''default_area'', None)], sh_radius = None, sh_radii = None\<rparr>
   \<and> (case Shape_init eng shell holes unit parent props of
         Inl e \<Rightarrow> True | Inr s \<Rightarrow> sh_areas s = [(''default_area'', None)])
   \<and> (case from_polygon g min_x max_x unit parent props of
         Inl e \<Rightarrow> True | Inr s \<Rightarrow> sh_areas s = [(''default_area'', None)])
   \<and> (case rectangle eng height width c unit parent props of
         Inl e \<Rightarrow> True | Inr s \<Rightarrow> sh_areas s = [(''default_area'', None)])
   \<and> (case disk eng radius c unit parent props of
         Inl e \<Rightarrow> True | Inr s \<Rightarrow> sh_areas s = [(''default_area'', None)])
   \<and> (case ellipse eng radii c unit parent props of
         Inl e \<Rightarrow> True | Inr s \<Rightarrow> sh_areas s = [(''default_area'', None)])"
proof (intro conjI)
  show "Shape_init sample_engine [(Num 0, Num 0), (Num 1, Num 0), (Num 1, Num 1), (Num 0, Num 1)]
       None ''um'' None PyNone =
     Inr \<lparr>sh_geom = Polygon [(Num 0, Num 0), (Num 1, Num 0), (Num 1, Num 1), (Num 0, Num 1),
                              (Num 0, Num 0)] [],
          sh_parent = None, sh_unit = ''um'', sh_geom_type = ''Polygon'',
          sh_areas = [(''default_area'', None)], sh_radius = None, sh_radii = None\<rparr>"
    by (simp add: Shape_init_def sample_engine_def geom_eval)
qed (auto split: sum.splits
      dest: Shape_init_areas from_polygon_areas rectangle_areas disk_areas ellipse_areas)

text \<open>
  Claim C6 says that \<open>from_polygon\<close> maps the horizontal extent of the polygon onto
  \<open>[min_x, max_x]\<close>, as the docstring of \<open>min_x\<close> and \<open>max_x\<close> does. The code
  scales by the factor of the claim, but about the centre of the bounding box, and
  does not move the polygon: the square on \<open>[0, 10]\<close> with \<open>min_x = -5000\<close> and
  \<open>max_x = 5000\<close> comes out on \<open>[-4995, 5005]\<close>.
\<close>

theorem from_polygon_extent_not_min_max:
  "map_sum id (\<lambda>s. bounds (sh_geom s))
     (from_polygon
        (Poly (Polygon [(Num 0, Num 0), (Num 10, Num 0), (Num 10, Num 10), (Num 0, Num 10),
                        (Num 0, Num 0)] []))
        (Some (Num (- 5000))) (Some (Num 5000)) ''um'' None PyNone) =
   Inr (Some (Num (- 4995), Num (- 4995), Num 5005, Num 5005))"
  by (simp add: geom_eval)

text \<open>
  On numbers that are not NaN, \<open>fle\<close> is an order, and \<open>np.min\<close> and
  \<open>np.max\<close> give the least and the greatest element: when they are equal, every
  element is that number.
\<close>

lemma fle_trans: "fle a b \<Longrightarrow> fle b c \<Longrightarrow> fle a c"
  by (cases a; cases b; cases c) (auto simp: fle_def feq_def)

lemma fle_antisym: "fle a b \<Longrightarrow> fle b a \<Longrightarrow> a = b"
  by (cases a; cases b) (auto simp: fle_def feq_def)

lemma fle_NaN: "\<not> fle x NaN" "\<not> fle NaN x"
  by (cases x; simp add: fle_def feq_def)+

lemma np_minimum_le:
  "\<not> isnan (np_minimum x m) \<Longrightarrow>
     \<not> isnan x \<and> \<not> isnan m \<and> fle (np_minimum x m) x \<and> fle (np_minimum x m) m"
  by (cases x; cases m) (auto simp: np_minimum_def fle_def feq_def)

lemma np_maximum_ge:
  "\<not> isnan (np_maximum x m) \<Longrightarrow>
     \<not> isnan x \<and> \<not> isnan m \<and> fle x (np_maximum x m) \<and> fle m (np_maximum x m)"
  by (cases x; cases m) (auto simp: np_maximum_def fle_def feq_def)

lemma fold_np_minimum_le:
  "\<not> isnan (fold np_minimum ys a) \<Longrightarrow>
     fle (fold np_minimum ys a) a \<and> (\<forall>y\<in>set ys. fle (fold np_minimum ys a) y)"
proof (induction ys arbitrary: a)
  case Nil
  then show ?case by (cases a) (auto simp: fle_def feq_def)
next
  case (Cons y ys)
  from Cons.prems have n: "\<not> isnan (fold np_minimum ys (np_minimum y a))" by simp
  from Cons.IH [OF n] have ih: "fle (fold np_minimum ys (np_minimum y a)) (np_minimum y a)"
    and ih2: "\<forall>z\<in>set ys. fle (fold np_minimum ys (np_minimum y a)) z" by auto
  from ih have "\<not> isnan (np_minimum y a)"
    by (cases "np_minimum y a") (auto simp: fle_NaN)
  from np_minimum_le [OF this] ih have "fle (fold np_minimum ys (np_minimum y a)) y"
    and "fle (fold np_minimum ys (np_minimum y a)) a"
    by (blast intro: fle_trans)+
  with ih2 show ?case by simp
qed

lemma fold_np_maximum_ge:
  "\<not> isnan (fold np_maximum ys a) \<Longrightarrow>
     fle a (fold np_maximum ys a) \<and> (\<forall>y\<in>set ys. fle y (fold np_maximum ys a))"
proof (induction ys arbitrary: a)
  case Nil
  then show ?case by (cases a) (auto simp: fle_def feq_def)
next
  case (Cons y ys)
  from Cons.prems have n: "\<not> isnan (fold np_maximum ys (np_maximum y a))" by simp
  from Cons.IH [OF n] have ih: "fle (np_maximum y a) (fold np_maximum ys (np_maximum y a))"
    and ih2: "\<forall>z\<in>set ys. fle z (fold np_maximum ys (np_maximum y a))" by auto
  from ih have "\<not> isnan (np_maximum y a)"
    by (cases "np_maximum y a") (auto simp: fle_NaN)
  from np_maximum_ge [OF this] ih have "fle y (fold np_maximum ys (np_maximum y a))"
    and "fle a (fold np_maximum ys (np_maximum y a))"
    by (blast intro: fle_trans)+
  with ih2 show ?case by simp
qed

lemma zero_width_all_equal:
  assumes "xs \<noteq> []" and "feq (np_max xs) (np_min xs)"
  shows "\<not> isnan (np_min xs) \<and> (\<forall>x\<in>set xs. x = np_min xs)"
proof -
  from assms(1) obtain a as where xs: "xs = a # as" by (cases xs) auto
  from assms(2) have eq: "np_max xs = np_min xs" and nn: "\<not> isnan (np_min xs)"
    and nx: "\<not> isnan (np_max xs)"
    by (auto simp: feq_def)
  from nn xs have lo: "fle (np_min xs) a \<and> (\<forall>y\<in>set as. fle (np_min xs) y)"
    using fold_np_minimum_le [of as a] by (simp add: np_min_def)
  from nx xs have hi: "fle a (np_max xs) \<and> (\<forall>y\<in>set as. fle y (np_max xs))"
    using fold_np_maximum_ge [of as a] by (simp add: np_max_def)
  from lo hi eq xs have "\<forall>x\<in>set xs. x = np_min xs"
    by (auto intro: fle_antisym)
  with nn show ?thesis by simp
qed

lemma env_fold_const_min:
  "\<forall>x\<in>set xs. x = v \<Longrightarrow> fold (\<lambda>x m. if flt x m then x else m) xs v = v"
  by (induction xs) auto

lemma env_fold_const_max:
  "\<forall>x\<in>set xs. x = v \<Longrightarrow> fold (\<lambda>x m. if flt m x then x else m) xs v = v"
  by (induction xs) auto

lemma env_const:
  assumes "xs \<noteq> []" and "\<forall>x\<in>set xs. x = v"
  shows "env_min xs = v" and "env_max xs = v"
proof -
  from assms(1) obtain a as where xs: "xs = a # as" by (cases xs) auto
  with assms(2) have a: "a = v" and as: "\<forall>x\<in>set as. x = v" by auto
  show "env_min xs = v" using xs a env_fold_const_min [OF as] by (simp add: env_min_def)
  show "env_max xs = v" using xs a env_fold_const_max [OF as] by (simp add: env_max_def)
qed

lemma zero_width_abscissa_nan:
  assumes "\<not> isnan v"
  shows "fst (affine_pt (fdiv n (fsub v v)) e
               (fsub (fdiv (fadd v v) (Num 2)) (fmul (fdiv (fadd v v) (Num 2)) (fdiv n (fsub v v))))
               yoff (v, y)) = NaN"
  using assms
  by (cases v; cases n; cases y)
     (auto simp: affine_pt_def fsub_def inf_of_sign_def sgn_if)

lemma linear_ring_nan:
  assumes "coords \<noteq> []" and "fst (hd coords) = NaN"
  shows "\<exists>msg. linear_ring coords = Inl (ValueError msg)"
  using assms by (auto simp: linear_ring_def same_point_def feq_def Let_def)

text \<open>
  The segment-like polygon on the abscissa 0, with the default \<open>min_x\<close> and
  \<open>max_x\<close>: the factor is \<open>10000 / 0\<close>, an infinity, every coordinate of the
  scaled ring is NaN, and the ring cannot be built.
\<close>

lemma from_polygon_zero_width_example:
  "from_polygon
     (Poly (Polygon [(Num 0, Num 0), (Num 0, Num 1), (Num 0, Num 2), (Num 0, Num 0)] []))
     (Some (Num (- 5000))) (Some (Num 5000)) ''um'' None PyNone =
   Inl (ValueError ''GEOSGeom_createLinearRing_r returned a NULL pointer'')"
  by (simp add: geom_eval)

text \<open>
  Claim C8. When \<open>min_x\<close> and \<open>max_x\<close> are given and the exterior ring has no
  width (its rightmost abscissa is equal to its leftmost), \<open>from_polygon\<close> fails:
  it raises a \<open>ValueError\<close> and returns no region. The module has no test of the
  width. The scaling factor is the quotient by the zero width, which numpy computes
  without raising (an infinity or NaN); the failure is that of \<open>scale\<close>, which
  maps every abscissa of the ring to NaN and cannot build the ring.
\<close>

theorem from_polygon_zero_width_raises:
  assumes "exterior p \<noteq> []"
    and "feq (np_max (map fst (exterior p))) (np_min (map fst (exterior p)))"
  shows "\<exists>msg. from_polygon (Poly p) (Some min_x) (Some max_x) unit parent default_properties =
           Inl (ValueError msg)"
proof -
  let ?xs = "map fst (exterior p)"
  define v where "v = np_min ?xs"
  from assms(1) have ne: "?xs \<noteq> []" by simp
  from zero_width_all_equal [OF ne assms(2)]
  have nn: "\<not> isnan v" and all: "\<forall>x\<in>set ?xs. x = v" by (auto simp: v_def)
  from assms(2) have mx: "np_max ?xs = v" by (simp add: feq_def v_def)
  from assms(1) obtain pt pts where ext: "exterior p = pt # pts" by (cases "exterior p") auto
  with all have pt: "pt = (v, snd pt)" by (cases pt) auto
  let ?s = "fdiv (fsub max_x min_x) (fsub v v)"
  have sc: "find_scaling p (Some min_x) (Some max_x) = Inr ?s"
    using ext mx by (simp add: find_scaling_def Let_def v_def)
  from env_const [OF ne all] obtain lo hi where
    bd: "bounds p = Some (v, lo, v, hi)"
    using ext by (simp add: bounds_def)
  let ?f = "affine_pt ?s ?s
      (fsub (fdiv (fadd v v) (Num 2)) (fmul (fdiv (fadd v v) (Num 2)) ?s))
      (fsub (fdiv (fadd hi lo) (Num 2)) (fmul (fdiv (fadd hi lo) (Num 2)) ?s))"
  have "fst (?f (v, snd pt)) = NaN"
    by (rule zero_width_abscissa_nan [OF nn])
  with pt have "fst (?f pt) = NaN" by simp
  with ext have "fst (hd (map ?f (exterior p))) = NaN" by simp
  moreover from ext have "map ?f (exterior p) \<noteq> []" by simp
  ultimately obtain msg where "linear_ring (map ?f (exterior p)) = Inl (ValueError msg)"
    using linear_ring_nan by blast
  then have "scale p ?s ?s = Inl (ValueError msg)"
    by (simp add: scale_def bd Let_def)
  with sc show ?thesis by (simp add: from_polygon_def)
qed

theorem from_polygon_zero_width_raises_witness:
  "exterior (Polygon [(Num 0, Num 0), (Num 0, Num 1), (Num 0, Num 2), (Num 0, Num 0)] []) \<noteq> []
   \<and> feq (np_max (map fst (exterior
           (Polygon [(Num 0, Num 0), (Num 0, Num 1), (Num 0, Num 2), (Num 0, Num 0)] []))))
         (np_min (map fst (exterior
           (Polygon [(Num 0, Num 0), (Num 0, Num 1), (Num 0, Num 2), (Num 0, Num 0)] []))))
   \<and> (\<exists>msg. from_polygon
         (Poly (Polygon [(Num 0, Num 0), (Num 0, Num 1), (Num 0, Num 2), (Num 0, Num 0)] []))
         (Some (Num (- 5000))) (Some (Num 5000)) ''um'' None PyNone = Inl (ValueError msg))"
proof -
  let ?p = "Polygon [(Num 0, Num 0), (Num 0, Num 1), (Num 0, Num 2), (Num 0, Num 0)] []"
  have a: "exterior ?p \<noteq> []" by simp
  have b: "feq (np_max (map fst (exterior ?p))) (np_min (map fst (exterior ?p)))"
    by (simp add: np_min_def np_max_def np_minimum_def np_maximum_def feq_def)
  from from_polygon_zero_width_raises [OF a b, of "Num (- 5000)" "Num 5000" "''um''" None PyNone]
    a b
  show ?thesis by blast
qed

section \<open>Properties of \<open>add_area\<close>\<close>

lemma module_globals_self: "module_globals ''self'' = None"
  by (simp add: module_globals_def)

lemma add_area_prepare_no_self:
  "G ''self'' = None \<Longrightarrow>
   add_area_prepare eng G area height name properties = Inl (NameError ''self'')"
  by (simp add: add_area_prepare_def load_global_def)

lemma add_area_no_self:
  "G ''self'' = None \<Longrightarrow>
   add_area eng G area height name properties = (Some (NameError ''self''), G)"
  by (simp add: add_area_def add_area_prepare_no_self)

lemma call_add_area_no_self:
  "G ''self'' = None \<Longrightarrow>
   snd (call_add_area eng G s args kwargs) = G \<and> fst (call_add_area eng G s args kwargs) \<noteq> None"
  by (simp add: call_add_area_def add_area_no_self split: sum.splits)

lemma call_add_area_one:
  "call_add_area eng G s [g] [] = add_area eng G (ShapeObj s) g (Val PyNone) (Val PyNone)"
  by (simp add: call_add_area_def bind_arguments_def add_area_params_def)

text \<open>
  Claim C4. \<open>add_area\<close> has no parameter \<open>self\<close>: the call \<open>s.add_area(g)\<close>
  binds \<open>s\<close> to \<open>area\<close> (and \<open>g\<close> to \<open>height\<close>), and the body, whatever its
  arguments, raises the \<open>NameError\<close> of the name \<open>self\<close>. No call of the method,
  with any positional and keyword arguments, returns normally or changes anything:
  the namespace, through which alone the body reaches a partition, is as it was.
\<close>

theorem add_area_raises_NameError:
  "call_add_area eng module_globals s [g] [] =
     add_area eng module_globals (ShapeObj s) g (Val PyNone) (Val PyNone)
   \<and> add_area eng module_globals area height name properties =
       (Some (NameError ''self''), module_globals)
   \<and> fst (call_add_area eng module_globals s args kwargs) \<noteq> None
   \<and> snd (call_add_area eng module_globals s args kwargs) = module_globals"
  using call_add_area_no_self [of module_globals] add_area_no_self [of module_globals]
    call_add_area_one module_globals_self by simp

text \<open>
  Claim C2 says that adding an area that overlaps a named area fails with the overlap
  error of the assertion. The code fails, and leaves the partition as it was, but
  with the \<open>NameError\<close> of claim C4, before any overlap is looked at: here the region
  holds the area \<open>a\<close>, the engine reports an overlap, and the call
  \<open>s.add_area(g, name="b")\<close> raises \<open>NameError\<close>.
\<close>

theorem add_area_overlap_raises_NameError:
  "call_add_area sample_engine module_globals sample_partitioned
     [Val (PyGeom (Poly (Polygon [(Num 1, Num 1), (Num 3, Num 1), (Num 3, Num 3),
                                  (Num 1, Num 3), (Num 1, Num 1)] [])))]
     [(''name'', Val (PyStr ''b''))] =
   (Some (NameError ''self''), module_globals)"
  by (simp add: call_add_area_def bind_arguments_def add_area_params_def
      add_area_no_self module_globals_self)

text \<open>
  Claim C3 says that adding an area inside a region that holds only its default area
  inserts the area and shrinks the default area by it. The code inserts nothing:
  the call \<open>s.add_area(g, name="a")\<close> on a fresh region raises the \<open>NameError\<close> of
  claim C4 and the partition of the region is not touched.
\<close>

theorem add_area_inside_raises_NameError:
  "call_add_area sample_engine module_globals sample_region
     [Val (PyGeom (Poly (Polygon [(Num 1, Num 1), (Num 3, Num 1), (Num 3, Num 3),
                                  (Num 1, Num 3), (Num 1, Num 1)] [])))]
     [(''name'', Val (PyStr ''a''))] =
   (Some (NameError ''self''), module_globals)"
  by (simp add: call_add_area_def bind_arguments_def add_area_params_def
      add_area_no_self module_globals_self)


section \<open>Properties of \<open>seed_neurons\<close>\<close>

lemma sample_disk_is_disk:
  "disk sample_engine (Num 1) (Num 0, Num 0) ''um'' None PyNone = Inr sample_disk"
  by (simp add: disk_def sample_engine_def sample_disk_def geom_eval)

lemma sample_engine_simps:
  "eng_intersection sample_engine a b = Inr a"
  "eng_buffer sample_engine a d = Inr a"
  "eng_contains sample_engine g pt = True"
  "eng_new_polygon sample_engine [p1, p2, p3, p4] None = Inr (Polygon [p1, p2, p3, p4, p1] [])"
  by (simp_all add: sample_engine_def)

lemma seed_custom_unbound:
  "\<exists>e. seed_custom eng uniform self c None n soma rng = Some (Inl e)"
  by (simp add: seed_custom_def split: sum.splits)

lemma seed_custom_unbound_min_x:
  "eng_intersection eng (Poly (sh_geom self)) c = Inr a \<Longrightarrow>
   eng_buffer eng a (fneg soma) = Inr b \<Longrightarrow>
   seed_custom eng uniform self c None n soma rng = Some (Inl (UnboundLocalError ''min_x''))"
  by (simp add: seed_custom_def)

text \<open>
  The other ways a call with a container ends: without a count it raises the
  \<open>ValueError\<close> of line 448, an exception of the parent's \<open>node_nb\<close>
  propagates, and so does an exception of the intersection or of the erosion.
\<close>

lemma seed_neurons_no_count:
  "sh_parent self = None \<Longrightarrow>
   seed_neurons eng uniform conv self None container xmin xmax ymin ymax soma unit rng =
     Some (Inl (ValueError ''`neurons` cannot be None if `parent` is None.''))"
  by (simp add: seed_neurons_def)

lemma seed_neurons_parent_raises:
  "sh_parent self = Some (Inl e) \<Longrightarrow>
   seed_neurons eng uniform conv self neurons container xmin xmax ymin ymax soma unit rng =
     Some (Inl e)"
  by (simp add: seed_neurons_def)

lemma seed_neurons_engine_raises:
  assumes "sh_parent self = None \<and> neurons = Some n \<or> sh_parent self = Some (Inr n)"
    and "eng_intersection eng (Poly (sh_geom self)) c = Inl e
         \<or> (\<exists>a. eng_intersection eng (Poly (sh_geom self)) c = Inr a
                \<and> eng_buffer eng a (fneg soma) = Inl e)"
  shows "seed_neurons eng uniform conv self neurons (Some c) xmin xmax ymin ymax soma unit rng =
           Some (Inl e)"
proof -
  from assms(2) have "seed_custom eng uniform self c None n soma rng = Some (Inl e)"
    by (auto simp: seed_custom_def)
  with assms(1) show ?thesis by (auto simp: seed_neurons_def)
qed

text \<open>
  Claim C7 says that every call of \<open>seed_neurons\<close> with a container raises a
  \<open>NameError\<close>. Not every call: without a count (no parent and \<open>neurons\<close>
  omitted) the call raises the \<open>ValueError\<close> of line 448, before the container is
  looked at.
\<close>

theorem seed_neurons_container_counterexample:
  "seed_neurons sample_engine sample_uniform sample_conv sample_region None
     (Some (Poly (Polygon [(Num 1, Num 1), (Num 3, Num 1), (Num 3, Num 3), (Num 1, Num 3),
                           (Num 1, Num 1)] [])))
     None None None None (Num 0) None 0 =
   Some (Inl (ValueError ''`neurons` cannot be None if `parent` is None.''))
   \<and> \<not> is_NameError (ValueError ''`neurons` cannot be None if `parent` is None.'')"
  by (simp add: seed_neurons_def sample_region_def)

text \<open>
  Claim C7, amended. No call of \<open>seed_neurons\<close> with a container returns
  positions or runs forever: it ends in an exception. When the count is there
  (\<open>neurons\<close> is given and there is no parent, or the parent returns its number of
  nodes) and the intersection and the erosion of the engine return, the exception
  is the \<open>UnboundLocalError\<close>, a \<open>NameError\<close>, of the local \<open>min_x\<close>, which
  is raised before any point is drawn.
\<close>

theorem seed_neurons_container_raises:
  "(\<exists>e. seed_neurons eng uniform conv self neurons (Some c) xmin xmax ymin ymax soma unit rng
          = Some (Inl e))
   \<and> ((sh_parent self = None \<and> neurons = Some n \<or> sh_parent self = Some (Inr n))
        \<and> eng_intersection eng (Poly (sh_geom self)) c = Inr a
        \<and> eng_buffer eng a (fneg soma) = Inr b
      \<longrightarrow> seed_neurons eng uniform conv self neurons (Some c) xmin xmax ymin ymax soma unit rng
          = Some (Inl (UnboundLocalError ''min_x'')))"
proof (intro conjI impI)
  have cu: "\<exists>e. seed_custom eng uniform self c None k soma rng = Some (Inl e)" for k
    by (rule seed_custom_unbound)
  show "\<exists>e. seed_neurons eng uniform conv self neurons (Some c) xmin xmax ymin ymax soma unit rng
          = Some (Inl e)"
  proof (cases "case sh_parent self of None \<Rightarrow> Inr neurons
            | Some node_nb \<Rightarrow> (case node_nb of Inl e \<Rightarrow> Inl e | Inr n \<Rightarrow> Inr (Some n))")
    case (Inl e)
    then show ?thesis by (simp add: seed_neurons_def)
  next
    case (Inr k)
    show ?thesis
    proof (cases k)
      case None
      with Inr show ?thesis by (simp add: seed_neurons_def)
    next
      case (Some m)
      from cu [of m] obtain e where
        "seed_custom eng uniform self c None m soma rng = Some (Inl e)"
        by blast
      with Inr Some show ?thesis by (simp add: seed_neurons_def)
    qed
  qed
next
  assume h: "(sh_parent self = None \<and> neurons = Some n \<or> sh_parent self = Some (Inr n))
        \<and> eng_intersection eng (Poly (sh_geom self)) c = Inr a
        \<and> eng_buffer eng a (fneg soma) = Inr b"
  then have "seed_custom eng uniform self c None n soma rng
      = Some (Inl (UnboundLocalError ''min_x''))"
    by (simp add: seed_custom_unbound_min_x)
  with h show "seed_neurons eng uniform conv self neurons (Some c) xmin xmax ymin ymax soma
      unit rng = Some (Inl (UnboundLocalError ''min_x''))"
    by (auto simp: seed_neurons_def)
qed

theorem seed_neurons_container_raises_witness:
  "seed_neurons sample_engine sample_uniform sample_conv sample_region (Some 3)
     (Some (Poly (Polygon [(Num 1, Num 1), (Num 3, Num 1), (Num 3, Num 3), (Num 1, Num 3),
                           (Num 1, Num 1)] [])))
     None None None None (Num 0) None 0 = Some (Inl (UnboundLocalError ''min_x''))
   \<and> is_NameError (UnboundLocalError ''min_x'')"
proof -
  let ?c = "Poly (Polygon [(Num 1, Num 1), (Num 3, Num 1), (Num 3, Num 3), (Num 1, Num 3),
                           (Num 1, Num 1)] [])"
  have h: "(sh_parent sample_region = None \<and> Some 3 = Some (3::nat)
            \<or> sh_parent sample_region = Some (Inr 3))
        \<and> eng_intersection sample_engine (Poly (sh_geom sample_region)) ?c
            = Inr (Poly (sh_geom sample_region))
        \<and> eng_buffer sample_engine (Poly (sh_geom sample_region)) (fneg (Num 0))
            = Inr (Poly (sh_geom sample_region))"
    by (simp add: sample_region_def sample_engine_def)
  from seed_neurons_container_raises [of sample_engine sample_uniform sample_conv
       sample_region "Some 3" ?c None None None None "Num 0" None 0 3
       "Poly (sh_geom sample_region)" "Poly (sh_geom sample_region)"] h
  show ?thesis by simp
qed

lemma pymax_NegInf: "pymax NegInf (Num a) = Num a"
  by (simp add: pymax_def fgt_def)

lemma pymin_PosInf: "pymin PosInf (Num a) = Num a"
  by (simp add: pymin_def)

lemma pymax_same: "pymax (Num a) (Num a) = Num a"
  by (simp add: pymax_def fgt_def)

lemma pymin_same: "pymin (Num a) (Num a) = Num a"
  by (simp add: pymin_def)

text \<open>
  The part of claim C5 that the code does: a disk without a parent, called with no
  container and with the four bounds given and equal to its own bounds, is seeded
  by the fast path of lines 475-481.
\<close>

lemma seed_neurons_disk_explicit_bounds:
  assumes "sh_geom_type self = ''Disk''"
    and "bounds (sh_geom self) = Some (Num a, Num b, Num c, Num d)"
    and "sh_parent self = None"
  shows "seed_neurons eng uniform conv self (Some n) None
           (Some (Num a)) (Some (Num c)) (Some (Num b)) (Some (Num d)) soma unit rng =
         Some (map_sum id (\<lambda>(positions, rng'). (convert_unit conv self unit positions, rng'))
                 (seed_disk eng uniform self n soma rng))"
  using assms by (simp add: seed_neurons_def pymax_same pymin_same feq_def Let_def)

text \<open>
  Claim C5 says that a disk is seeded by the fast path also when the bounds are
  omitted. The code replaces an omitted bound by an infinity (lines 453-460) and
  then compares these, not the clipped bounds, with \<open>self.bounds\<close> (line 474):
  for a disk with finite bounds the test fails and the call goes through the
  rejection sampling of the generic path, on the box of the bounds.
\<close>

theorem seed_neurons_disk_default_bounds:
  assumes "sh_geom_type self = ''Disk''"
    and "bounds (sh_geom self) = Some (Num a, Num b, Num c, Num d)"
    and "sh_parent self = None"
  shows "seed_neurons eng uniform conv self (Some n) None None None None None soma unit rng =
     map_option (map_sum id (\<lambda>(positions, rng'). (convert_unit conv self unit positions, rng')))
       (case eng_new_polygon eng
               [(Num a, Num b), (Num a, Num d), (Num c, Num d), (Num c, Num b)] None of
          Inl e \<Rightarrow> Some (Inl e)
        | Inr box \<Rightarrow>
            seed_custom eng uniform self (Poly box) (Some (Num a, Num b, Num c, Num d)) n soma
              rng)"
  using assms
  by (simp add: seed_neurons_def pymax_NegInf pymin_PosInf feq_def Let_def split: sum.splits)

lemma seed_loop_sample:
  "seed_loop sample_engine sample_uniform g lx hx ly hy 2 [] r =
   Some ([(lx, ly), (lx, ly)], r + 2)"
  apply (subst seed_loop.simps)
  apply (simp add: sample_uniform_def sample_engine_simps)
  apply (subst seed_loop.simps)
  apply (simp add: numeral_2_eq_2)
  done

lemma sample_disk_bounds:
  "bounds (sh_geom sample_disk) = Some (Num (- 1), Num (- 1), Num 1, Num 1)"
  by (simp add: sample_disk_def bounds_def env_min_def env_max_def)

theorem seed_neurons_disk_default_bounds_witness:
  "seed_neurons sample_engine sample_uniform sample_conv sample_disk (Some 2)
     None None None None None (Num 0) None 0 =
   Some (Inr ([(Num (- 1), Num (- 1)), (Num (- 1), Num (- 1))], 2))"
proof -
  have a: "sh_geom_type sample_disk = ''Disk''" by (simp add: sample_disk_def)
  have c: "sh_parent sample_disk = None" by (simp add: sample_disk_def)
  have fp: "from_polygon (Poly (sh_geom sample_disk)) (Some (Num (- 1))) (Some (Num 1))
              ''um'' None PyNone =
            Inr (sample_disk\<lparr>sh_geom_type := ''Polygon'', sh_radius := None\<rparr>)"
    by (simp add: sample_disk_def geom_eval)
  from seed_neurons_disk_default_bounds [OF a sample_disk_bounds c,
      of sample_engine sample_uniform sample_conv 2 "Num 0" None 0]
  show ?thesis
    by (simp add: seed_custom_def sample_engine_simps fsub_def fp seed_loop_sample
        convert_unit_def)
qed


section \<open>Properties of the \<open>areas\<close> property\<close>

text \<open>
  A partition that holds no area, which is what every constructor builds: \<open>areas\<close>
  returns a new \<open>dict\<close> with the items of the partition, the store is the store
  of before with that one object more, and whatever is written to the new object,
  every object that was there before the call is as it was. A partition that holds an
  area (all its values being \<open>None\<close> or areas): \<open>areas\<close> raises the
  \<open>TypeError\<close> of the first area it tries to copy.
\<close>

lemma deepcopy_items_None:
  "\<forall>v\<in>snd ` set items. v = RNone \<Longrightarrow> deepcopy_items h m items = Inr (items, h, m)"
  by (induction items) auto

lemma Shape_areas_no_area:
  assumes "lookup h self = Some (HShape d)"
    and "lookup h d = Some (HDict items)"
    and "\<forall>v\<in>snd ` set items. v = RNone"
  shows "Shape_areas h self = Inr (length h, h @ [HDict items])"
  using assms(1,2) deepcopy_items_None [OF assms(3)]
  by (simp add: Shape_areas_def deepcopy_dict_def Let_def)

lemma Shape_areas_no_area_independent:
  assumes "lookup h self = Some (HShape d)"
    and "lookup h d = Some (HDict items)"
    and "\<forall>v\<in>snd ` set items. v = RNone"
    and "Shape_areas h self = Inr (r, h')"
    and "z < length h"
  shows "lookup h' r = Some (HDict items) \<and> r \<noteq> d \<and> lookup (h'[r := obj]) z = lookup h z"
  using assms Shape_areas_no_area [OF assms(1-3)]
  by (auto simp: lookup_def nth_append split: if_splits)

lemma deepcopy_items_area:
  assumes "\<forall>v\<in>snd ` set items. v = RNone \<or>
             (\<exists>a g ht nm p. v = RObj a \<and> lookup h a = Some (HArea g ht nm p) \<and> m a = None)"
    and "\<exists>a. RObj a \<in> snd ` set items"
  shows "deepcopy_items h m items =
           Inl (TypeError ''__init__() missing 1 required positional argument: shell'')"
  using assms
proof (induction items)
  case Nil
  then show ?case by simp
next
  case (Cons kv items)
  obtain k v where kv: "kv = (k, v)" by (cases kv)
  show ?case
  proof (cases v)
    case RNone
    with Cons.prems kv have "\<exists>a. RObj a \<in> snd ` set items" by auto
    moreover from Cons.prems(1) have "\<forall>v\<in>snd ` set items. v = RNone \<or>
             (\<exists>a g ht nm p. v = RObj a \<and> lookup h a = Some (HArea g ht nm p) \<and> m a = None)"
      by simp
    ultimately show ?thesis using Cons.IH kv RNone by simp
  next
    case (RObj a)
    with Cons.prems(1) kv obtain g ht nm p where
      "lookup h a = Some (HArea g ht nm p)" "m a = None" by auto
    with kv RObj show ?thesis by (simp add: deepcopy_area_def)
  qed
qed

lemma Shape_areas_area_raises:
  assumes "lookup h self = Some (HShape d)"
    and "lookup h d = Some (HDict items)"
    and "\<forall>v\<in>snd ` set items. v = RNone \<or>
           (\<exists>a g ht nm p. v = RObj a \<and> lookup h a = Some (HArea g ht nm p))"
    and "\<exists>a. RObj a \<in> snd ` set items"
  shows "Shape_areas h self =
           Inl (TypeError ''__init__() missing 1 required positional argument: shell'')"
proof -
  have "\<forall>v\<in>snd ` set items. v = RNone \<or>
          (\<exists>a g ht nm p. v = RObj a \<and> lookup (h @ [HDict []]) a = Some (HArea g ht nm p)
             \<and> [d \<mapsto> length h] a = None)"
  proof
    fix v assume "v \<in> snd ` set items"
    with assms(3) have "v = RNone \<or>
        (\<exists>a g ht nm p. v = RObj a \<and> lookup h a = Some (HArea g ht nm p))" by blast
    then show "v = RNone \<or>
        (\<exists>a g ht nm p. v = RObj a \<and> lookup (h @ [HDict []]) a = Some (HArea g ht nm p)
           \<and> [d \<mapsto> length h] a = None)"
    proof
      assume "v = RNone" then show ?thesis by simp
    next
      assume "\<exists>a g ht nm p. v = RObj a \<and> lookup h a = Some (HArea g ht nm p)"
      then obtain a g ht nm p where v: "v = RObj a" and a: "lookup h a = Some (HArea g ht nm p)"
        by blast
      from a assms(2) have "a \<noteq> d" by auto
      moreover from a have "lookup (h @ [HDict []]) a = Some (HArea g ht nm p)"
        by (auto simp: lookup_def nth_append split: if_splits)
      ultimately show ?thesis using v by simp
    qed
  qed
  from this assms(4) have "deepcopy_items (h @ [HDict []]) [d \<mapsto> length h] items =
      Inl (TypeError ''__init__() missing 1 required positional argument: shell'')"
    by (rule deepcopy_items_area)
  with assms(1,2) show ?thesis
    by (simp add: Shape_areas_def deepcopy_dict_def Let_def)
qed

lemma fresh_heap_areas:
  "Shape_areas [HShape 1, HDict [(''default_area'', RNone)]] 0 =
     Inr (2, [HShape 1, HDict [(''default_area'', RNone)], HDict [(''default_area'', RNone)]])"
  by (simp add: Shape_areas_def lookup_def deepcopy_dict_def Let_def)

text \<open>
  Claim C10 says that \<open>areas\<close> returns a deep, independent copy of the partition
  of every region. The code does so for the partition of a fresh region, whose only
  value is \<open>None\<close>: the result is a new \<open>dict\<close> with the same item. It does
  not once the partition holds an area, which is what \<open>add_area\<close> is written to
  put there: \<open>deepcopy\<close> cannot copy an \<open>Area\<close>, and \<open>areas\<close> raises a
  \<open>TypeError\<close> instead of returning a copy.
\<close>

theorem areas_with_area_raises_TypeError:
  "Shape_areas sample_heap 0 =
     Inl (TypeError ''__init__() missing 1 required positional argument: shell'')"
  by (simp add: Shape_areas_def sample_heap_def lookup_def deepcopy_dict_def deepcopy_area_def
      Let_def)

end
